theory Spec2Isabelle
  imports Main "HOL-Library.Word"
begin

unbundle bit_operations_syntax

section \<open>Python values\<close>

text \<open>
  The values that \<^verbatim>\<open>json.load\<close> and \<^verbatim>\<open>yaml.safe_load\<close> hand to the program,
  and the dictionaries the program builds from them. A \<^verbatim>\<open>dict\<close> keeps its keys in
  insertion order, so it is an association list; its keys are strings, or the integer
  response code that \<^verbatim>\<open>main\<close> uses as a key. A \<^verbatim>\<open>float\<close> is its IEEE-754 binary64
  bit pattern. \<open>PObject\<close> stands for any other object a YAML document can decode to
  (a date, bytes, a set, a tuple): its \<^verbatim>\<open>repr\<close> and its truth value.
\<close>

datatype pykey = KStr string | KInt int

datatype pyval =
    PNone
  | PBool bool
  | PInt int
  | PFloat "64 word"
  | PStr string
  | PList "pyval list"
  | PDict "(pykey \<times> pyval) list"
  | PObject string bool

text \<open>What the program prints, one value for each \<^verbatim>\<open>print\<close> call.\<close>

datatype printed =
    Unknown_type pyval           \<comment> \<open>\<^verbatim>\<open>unknown type: {}, value: {}\<close>\<close>
  | Skip_request string          \<comment> \<open>\<^verbatim>\<open>warning: {} looks not valid, skip request generation\<close>\<close>
  | Skip_response string         \<comment> \<open>\<^verbatim>\<open>warning: {} looks not valid, skip response generation\<close>\<close>
  | Looks_valid                  \<comment> \<open>\<^verbatim>\<open>OpenAPI looks valid\<close>\<close>
  | Validation_error string      \<comment> \<open>\<^verbatim>\<open>Validation error! {}\<close>\<close>
  | Output_written string        \<comment> \<open>\<^verbatim>\<open>Output written to {}\<close>\<close>
  | Separator                    \<comment> \<open>\<^verbatim>\<open>---\<close>\<close>
  | Dumped pyval                 \<comment> \<open>the text \<^verbatim>\<open>yaml.dump\<close> returns for the document\<close>

text \<open>
  The exceptions that leave a function: \<open>Uncaught\<close> is an exception that a decoder
  raises and \<^verbatim>\<open>_load_file\<close> has no handler for, with its name.
\<close>

datatype error = OSError string | KeyError pykey | TypeError | Uncaught string

subsection \<open>\<^verbatim>\<open>isinstance\<close> and truth values\<close>

text \<open>In Python \<^verbatim>\<open>bool\<close> is a subclass of \<^verbatim>\<open>int\<close>: \<^verbatim>\<open>isinstance(True, int)\<close> holds.\<close>

fun isinstance_str :: "pyval \<Rightarrow> bool" where
  "isinstance_str (PStr s) = True"
| "isinstance_str v = False"

fun isinstance_int :: "pyval \<Rightarrow> bool" where
  "isinstance_int (PInt i) = True"
| "isinstance_int (PBool b) = True"
| "isinstance_int v = False"

fun isinstance_float :: "pyval \<Rightarrow> bool" where
  "isinstance_float (PFloat w) = True"
| "isinstance_float v = False"

fun isinstance_bool :: "pyval \<Rightarrow> bool" where
  "isinstance_bool (PBool b) = True"
| "isinstance_bool v = False"

text \<open>The truth value \<^verbatim>\<open>if x:\<close> tests. A float is false when it is \<open>0.0\<close> or \<open>-0.0\<close>.\<close>

fun truthy :: "pyval \<Rightarrow> bool" where
  "truthy PNone = False"
| "truthy (PBool b) = b"
| "truthy (PInt i) = (i \<noteq> 0)"
| "truthy (PFloat w) = (w AND 0x7FFFFFFFFFFFFFFF \<noteq> 0)"
| "truthy (PStr s) = (s \<noteq> [])"
| "truthy (PList xs) = (xs \<noteq> [])"
| "truthy (PDict d) = (d \<noteq> [])"
| "truthy (PObject r t) = t"

subsection \<open>Dictionary operations\<close>

text \<open>\<^verbatim>\<open>d[k] = v\<close>: an existing key keeps its position, a new key goes last.\<close>

fun dict_set :: "(pykey \<times> pyval) list \<Rightarrow> pykey \<Rightarrow> pyval \<Rightarrow> (pykey \<times> pyval) list" where
  "dict_set [] k v = [(k, v)]"
| "dict_set ((k', v') # d) k v =
     (if k' = k then (k', v) # d else (k', v') # dict_set d k v)"

section \<open>The schema inferencer\<close>

text \<open>
  \<^verbatim>\<open>_get_type_ex\<close>, with the global \<^verbatim>\<open>_example\<close> as the parameter \<open>ex\<close>. The checks are
  in the order of the source. The result is the dictionary and what was printed.
\<close>

definition get_type_ex :: "bool \<Rightarrow> pyval \<Rightarrow> pyval \<times> printed list" where
  "get_type_ex ex val =
     (let (t, ex_val, out) =
        (if val = PNone then (''string'', PStr '''', [])
         else if isinstance_str val then (''string'', val, [])
         else if isinstance_int val then (''integer'', val, [])
         else if isinstance_float val then (''number'', val, [])
         else if isinstance_bool val then (''boolean'', val, [])
         else ('''', val, [Unknown_type val]))
      in if ex then (PDict [(KStr ''type'', PStr t), (KStr ''example'', ex_val)], out)
         else (PDict [(KStr ''type'', PStr t)], out))"

text \<open>
  \<^verbatim>\<open>_gen_schema\<close>. The loop over \<^verbatim>\<open>data.items()\<close> is \<open>gen_properties\<close>, which carries
  the dictionary \<^verbatim>\<open>schema["properties"]\<close> built so far.
\<close>

fun gen_schema :: "bool \<Rightarrow> pyval \<Rightarrow> pyval \<times> printed list"
  and gen_properties :: "bool \<Rightarrow> (pykey \<times> pyval) list \<Rightarrow> (pykey \<times> pyval) list
                           \<Rightarrow> (pykey \<times> pyval) list \<times> printed list" where
  "gen_schema ex (PDict items) =
     (case gen_properties ex items [] of (props, out) \<Rightarrow>
        (PDict [(KStr ''type'', PStr ''object''), (KStr ''properties'', PDict props)], out))"
| "gen_schema ex (PList []) =
     (PDict [(KStr ''type'', PStr ''array''), (KStr ''items'', PDict [])], [])"
| "gen_schema ex (PList (x # xs)) =
     (case gen_schema ex x of (s, out) \<Rightarrow>
        (PDict [(KStr ''type'', PStr ''array''), (KStr ''items'', s)], out))"
| "gen_schema ex v = get_type_ex ex v"
| "gen_properties ex [] props = (props, [])"
| "gen_properties ex ((key, val) # items) props =
     (case gen_schema ex val of (s, out) \<Rightarrow>
        (case gen_properties ex items (dict_set props key s) of (props', out') \<Rightarrow>
           (props', out @ out')))"

text \<open>
  \<^verbatim>\<open>d[k]\<close>, \<^verbatim>\<open>d[k] = v\<close> and \<^verbatim>\<open>del d[k]\<close> on a value: a missing key raises
  \<^verbatim>\<open>KeyError\<close>, a value that is no dictionary raises \<^verbatim>\<open>TypeError\<close>.
\<close>

fun dict_del :: "(pykey \<times> pyval) list \<Rightarrow> pykey \<Rightarrow> (pykey \<times> pyval) list" where
  "dict_del [] k = []"
| "dict_del ((k', v') # d) k = (if k' = k then d else (k', v') # dict_del d k)"

fun getitem :: "pyval \<Rightarrow> pykey \<Rightarrow> error + pyval" where
  "getitem (PDict d) k = (case map_of d k of None \<Rightarrow> Inl (KeyError k) | Some v \<Rightarrow> Inr v)"
| "getitem v k = Inl TypeError"

fun setitem :: "pyval \<Rightarrow> pykey \<Rightarrow> pyval \<Rightarrow> error + pyval" where
  "setitem (PDict d) k v = Inr (PDict (dict_set d k v))"
| "setitem x k v = Inl TypeError"

fun delitem :: "pyval \<Rightarrow> pykey \<Rightarrow> error + pyval" where
  "delitem (PDict d) k =
     (if k \<in> fst ` set d then Inr (PDict (dict_del d k)) else Inl (KeyError k))"
| "delitem x k = Inl TypeError"

text \<open>
  \<^verbatim>\<open>d[p1]...[pn][k] = v\<close> and \<^verbatim>\<open>del d[p1]...[pn][k]\<close>. The inner dictionaries are
  reached through \<open>d\<close> alone, so the mutation of the innermost one is the rebuilding
  of \<open>d\<close> along the path, every key keeping its position.
\<close>

fun setitem_at :: "pyval \<Rightarrow> pykey list \<Rightarrow> pykey \<Rightarrow> pyval \<Rightarrow> error + pyval" where
  "setitem_at d [] k v = setitem d k v"
| "setitem_at d (p # ps) k v =
     (case getitem d p of
        Inl e \<Rightarrow> Inl e
      | Inr sub \<Rightarrow>
          (case setitem_at sub ps k v of
             Inl e \<Rightarrow> Inl e
           | Inr sub' \<Rightarrow> setitem d p sub'))"

fun delitem_at :: "pyval \<Rightarrow> pykey list \<Rightarrow> pykey \<Rightarrow> error + pyval" where
  "delitem_at d [] k = delitem d k"
| "delitem_at d (p # ps) k =
     (case getitem d p of
        Inl e \<Rightarrow> Inl e
      | Inr sub \<Rightarrow>
          (case delitem_at sub ps k of
             Inl e \<Rightarrow> Inl e
           | Inr sub' \<Rightarrow> setitem d p sub'))"

section \<open>The command line and the outside world\<close>

text \<open>
  The parser accepts one of five methods (\<^verbatim>\<open>choices\<close>) and any integer as the
  code. The field \<open>meth\<close> is \<^verbatim>\<open>args.method\<close>, \<open>output_file\<close> is \<^verbatim>\<open>args.output\<close>.
\<close>

datatype http_method = GET | POST | PUT | PATCH | DELETE

fun method_str :: "http_method \<Rightarrow> string" where
  "method_str GET = ''GET''"
| "method_str POST = ''POST''"
| "method_str PUT = ''PUT''"
| "method_str PATCH = ''PATCH''"
| "method_str DELETE = ''DELETE''"

definition lower_char :: "char \<Rightarrow> char" where
  "lower_char c =
     (case map_of (zip ''ABCDEFGHIJKLMNOPQRSTUVWXYZ'' ''abcdefghijklmnopqrstuvwxyz'') c of
        None \<Rightarrow> c
      | Some l \<Rightarrow> l)"

definition lower :: "string \<Rightarrow> string" where
  "lower s = map lower_char s"

record args =
  meth :: http_method
  path :: string
  resp_code :: int
  request :: "string option"
  response :: "string option"
  output_file :: "string option"
  example :: bool
  media_type :: string

text \<open>
  What a decoder does with a text: it returns a value, or it raises its decode error
  (\<^verbatim>\<open>JSONDecodeError\<close> for \<^verbatim>\<open>json.load\<close>, \<^verbatim>\<open>yaml.YAMLError\<close> for \<^verbatim>\<open>yaml.safe_load\<close>),
  or it raises another exception (\<^verbatim>\<open>json.load\<close> raises \<^verbatim>\<open>RecursionError\<close> on a deep
  nesting and \<^verbatim>\<open>ValueError\<close> on a very long integer).
\<close>

datatype decoded = Decoded pyval | Decode_error | Raised string

fun raised :: "decoded \<Rightarrow> bool" where
  "raised (Raised e) = True"
| "raised d = False"

text \<open>
  What the program calls and does not define: the files it can open and their text,
  the two decoders, the validator \<^verbatim>\<open>OpenAPI(oapi)\<close> (\<open>Some msg\<close> is a \<^verbatim>\<open>SpecError\<close>
  with that message) and the files it can open for writing.
\<close>

record env =
  files :: "string \<Rightarrow> string option"
  json_load :: "string \<Rightarrow> decoded"
  yaml_safe_load :: "string \<Rightarrow> decoded"
  validate :: "pyval \<Rightarrow> string option"
  writable :: "string \<Rightarrow> bool"

text \<open>
  \<^verbatim>\<open>_load_file\<close>: JSON first; after a \<^verbatim>\<open>JSONDecodeError\<close>, YAML; after a \<^verbatim>\<open>YAMLError\<close>,
  Python's \<^verbatim>\<open>None\<close>. The two \<^verbatim>\<open>except\<close> clauses catch nothing else: any other
  exception of a decoder leaves the function, and \<^verbatim>\<open>main\<close>, which has no handler.
\<close>

definition load_file :: "env \<Rightarrow> string \<Rightarrow> error + pyval" where
  "load_file E file =
     (case files E file of
        None \<Rightarrow> Inl (OSError file)
      | Some text \<Rightarrow>
          (case json_load E text of
             Decoded v \<Rightarrow> Inr v
           | Raised e \<Rightarrow> Inl (Uncaught e)
           | Decode_error \<Rightarrow>
               (case yaml_safe_load E text of
                  Decoded v \<Rightarrow> Inr v
                | Raised e \<Rightarrow> Inl (Uncaught e)
                | Decode_error \<Rightarrow> Inr PNone)))"

section \<open>The document assembler\<close>

text \<open>The truth value of an optional string argument: absent and empty are false.\<close>

fun given :: "string option \<Rightarrow> bool" where
  "given None = False"
| "given (Some s) = (s \<noteq> [])"

text \<open>The dictionary literal of \<^verbatim>\<open>main\<close> (lines 120 to 138).\<close>

definition skeleton :: "args \<Rightarrow> pyval" where
  "skeleton a =
     PDict [
       (KStr ''openapi'', PStr ''3.0.0''),
       (KStr ''info'', PDict [
          (KStr ''title'', PStr ''Generated by json2openapi''),
          (KStr ''version'', PStr ''v1'')]),
       (KStr ''paths'', PDict [
          (KStr (path a), PDict [
             (KStr (lower (method_str (meth a))), PDict [
                (KStr ''requestBody'', PNone),
                (KStr ''responses'', PDict [
                   (KInt (resp_code a), PDict [
                      (KStr ''description'', PStr [])])])])])])]"

text \<open>The path \<^verbatim>\<open>oapi["paths"][args.path][args.method.lower()]\<close>.\<close>

definition operation_path :: "args \<Rightarrow> pykey list" where
  "operation_path a = [KStr ''paths'', KStr (path a), KStr (lower (method_str (meth a)))]"

definition content :: "args \<Rightarrow> pyval \<Rightarrow> pyval" where
  "content a schema = PDict [(KStr (media_type a), PDict [(KStr ''schema'', schema)])]"

text \<open>The request part of \<^verbatim>\<open>main\<close> (lines 140 to 154), on the document so far.\<close>

definition request_part :: "env \<Rightarrow> args \<Rightarrow> pyval \<Rightarrow> error + pyval \<times> printed list" where
  "request_part E a oapi =
     (if given (request a) then
        (case load_file E (the (request a)) of
           Inl e \<Rightarrow> Inl e
         | Inr request_load \<Rightarrow>
             (if truthy request_load then
                (case gen_schema (example a) request_load of (schema, out) \<Rightarrow>
                   (case setitem_at oapi (operation_path a) (KStr ''requestBody'')
                           (PDict [(KStr ''content'', content a schema)]) of
                      Inl e \<Rightarrow> Inl e
                    | Inr oapi' \<Rightarrow> Inr (oapi', out)))
              else Inr (oapi, [Skip_request (the (request a))])))
      else
        (case delitem_at oapi (operation_path a) (KStr ''requestBody'') of
           Inl e \<Rightarrow> Inl e
         | Inr oapi' \<Rightarrow> Inr (oapi', [])))"

text \<open>The response part of \<^verbatim>\<open>main\<close> (lines 156 to 167).\<close>

definition response_part :: "env \<Rightarrow> args \<Rightarrow> pyval \<Rightarrow> error + pyval \<times> printed list" where
  "response_part E a oapi =
     (if given (response a) then
        (case load_file E (the (response a)) of
           Inl e \<Rightarrow> Inl e
         | Inr response_load \<Rightarrow>
             (if truthy response_load then
                (case gen_schema (example a) response_load of (schema, out) \<Rightarrow>
                   (case setitem_at oapi
                           (operation_path a @ [KStr ''responses'', KInt (resp_code a)])
                           (KStr ''content'') (content a schema) of
                      Inl e \<Rightarrow> Inl e
                    | Inr oapi' \<Rightarrow> Inr (oapi', out)))
              else Inr (oapi, [Skip_response (the (response a))])))
      else Inr (oapi, []))"

text \<open>
  The document \<^verbatim>\<open>main\<close> has built when it reaches the validator (lines 116 to 167),
  with what it has printed until then.
\<close>

definition assemble :: "env \<Rightarrow> args \<Rightarrow> error + pyval \<times> printed list" where
  "assemble E a =
     (case request_part E a (skeleton a) of
        Inl e \<Rightarrow> Inl e
      | Inr (oapi, out) \<Rightarrow>
          (case response_part E a oapi of
             Inl e \<Rightarrow> Inl e
           | Inr (oapi', out') \<Rightarrow> Inr (oapi', out @ out')))"

text \<open>
  What a run leaves behind: the printed lines, and the file written with the document
  that \<^verbatim>\<open>yaml.dump\<close> serialises into it.
\<close>

record outcome =
  stdout :: "printed list"
  written :: "(string \<times> pyval) option"

text \<open>\<^verbatim>\<open>main\<close>: the assembly, the validation (lines 169 to 174) and the output (176 to 182).\<close>

definition main :: "env \<Rightarrow> args \<Rightarrow> error + outcome" where
  "main E a =
     (case assemble E a of
        Inl e \<Rightarrow> Inl e
      | Inr (oapi, out) \<Rightarrow>
          (case validate E oapi of
             Some message \<Rightarrow>
               Inr \<lparr>stdout = out @ [Validation_error message], written = None\<rparr>
           | None \<Rightarrow>
               (if given (output_file a) then
                  (if writable E (the (output_file a)) then
                     Inr \<lparr>stdout = out @ [Looks_valid, Output_written (the (output_file a))],
                          written = Some (the (output_file a), oapi)\<rparr>
                   else Inl (OSError (the (output_file a))))
                else
                  Inr \<lparr>stdout = out @ [Looks_valid, Separator, Dumped oapi],
                       written = None\<rparr>)))"

section \<open>Observing a run\<close>

text \<open>\<^verbatim>\<open>d[p1]...[pn]\<close>, to read a place of the document.\<close>

fun getitem_at :: "pyval \<Rightarrow> pykey list \<Rightarrow> error + pyval" where
  "getitem_at d [] = Inr d"
| "getitem_at d (p # ps) =
     (case getitem d p of
        Inl e \<Rightarrow> Inl e
      | Inr sub \<Rightarrow> getitem_at sub ps)"

text \<open>The documents a run hands out: those it prints and the one it writes.\<close>

fun dumped :: "printed list \<Rightarrow> pyval list" where
  "dumped [] = []"
| "dumped (Dumped d # ps) = d # dumped ps"
| "dumped (p # ps) = dumped ps"

definition emitted :: "outcome \<Rightarrow> pyval list" where
  "emitted r = dumped (stdout r) @ (case written r of None \<Rightarrow> [] | Some (f, d) \<Rightarrow> [d])"

text \<open>
  The document with \<open>op\<close> as the entries of its operation object: the shape of every
  document \<^verbatim>\<open>main\<close> builds.
\<close>

definition document :: "args \<Rightarrow> (pykey \<times> pyval) list \<Rightarrow> pyval" where
  "document a op =
     PDict [
       (KStr ''openapi'', PStr ''3.0.0''),
       (KStr ''info'', PDict [
          (KStr ''title'', PStr ''Generated by json2openapi''),
          (KStr ''version'', PStr ''v1'')]),
       (KStr ''paths'', PDict [
          (KStr (path a), PDict [
             (KStr (lower (method_str (meth a))), PDict op)])])]"

text \<open>
  On the text, each decoder that \<^verbatim>\<open>_load_file\<close> calls returns a value or raises its
  decode error: the YAML decoder is called only after the JSON decoder's decode error.
\<close>

definition quiet :: "env \<Rightarrow> string \<Rightarrow> bool" where
  "quiet E text =
     (\<not> raised (json_load E text)
      \<and> (json_load E text = Decode_error \<longrightarrow> \<not> raised (yaml_safe_load E text)))"

text \<open>The file can be opened and the decoders are quiet on its text.\<close>

definition loadable :: "env \<Rightarrow> string \<Rightarrow> bool" where
  "loadable E file = (case files E file of None \<Rightarrow> False | Some text \<Rightarrow> quiet E text)"


text \<open>The same world, except that both decoders raise their decode error on \<open>t\<close>.\<close>

definition undecodable :: "env \<Rightarrow> string \<Rightarrow> env" where
  "undecodable E t =
     E\<lparr>json_load := (json_load E)(t := Decode_error),
       yaml_safe_load := (yaml_safe_load E)(t := Decode_error)\<rparr>"

section \<open>Sample runs\<close>

text \<open>
  A world with five files: an object as JSON text and as YAML text, a text that is
  neither, the JSON text of the empty object, and a nesting so deep that the JSON
  decoder raises \<^verbatim>\<open>RecursionError\<close>. The validator accepts every document.
\<close>

definition employee :: pyval where
  "employee =
     PDict [(KStr ''name'', PStr ''Ann''), (KStr ''id'', PInt 7),
            (KStr ''active'', PBool True), (KStr ''tags'', PList [PStr ''a'', PInt 1])]"

definition sample_env :: env where
  "sample_env =
     \<lparr>files = [''employee.json'' \<mapsto> ''{json}'', ''employee.yaml'' \<mapsto> ''yaml:'',
               ''broken.txt'' \<mapsto> ''{'', ''empty.json'' \<mapsto> ''{}'',
               ''deep.json'' \<mapsto> ''[[[[''],
      json_load = (\<lambda>text.
         if text = ''{json}'' then Decoded employee
         else if text = ''{}'' then Decoded (PDict [])
         else if text = ''[[[['' then Raised ''RecursionError''
         else Decode_error),
      yaml_safe_load = (\<lambda>text.
         if text = ''yaml:'' then Decoded employee else Decode_error),
      validate = (\<lambda>d. None),
      writable = (\<lambda>f. True)\<rparr>"


definition sample_args :: args where
  "sample_args =
     \<lparr>meth = GET, path = ''/employees'', resp_code = 200, request = None,
      response = None, output_file = None, example = True,
      media_type = ''application/json''\<rparr>"

section \<open>Properties of the schema inferencer\<close>

lemma dict_set_fresh: "k \<notin> fst ` set d \<Longrightarrow> dict_set d k v = d @ [(k, v)]"
  by (induction d) auto

lemma gen_properties_step:
  "fst (gen_properties ex ((key, val) # items) props) =
     fst (gen_properties ex items (dict_set props key (fst (gen_schema ex val))))"
  by (simp add: case_prod_unfold)

text \<open>
  The loop appends one property for each item, in the order of the items, as long as
  no key comes twice.
\<close>

lemma gen_properties_distinct:
  "distinct (map fst props @ map fst items) \<Longrightarrow>
   fst (gen_properties ex items props) =
     props @ map (\<lambda>(k, v). (k, fst (gen_schema ex v))) items"
proof (induction items arbitrary: props)
  case Nil
  then show ?case by simp
next
  case (Cons kv items)
  obtain key val where kv: "kv = (key, val)" by (cases kv)
  from Cons.prems kv have fresh: "key \<notin> fst ` set props" by auto
  let ?s = "fst (gen_schema ex val)"
  have step: "dict_set props key ?s = props @ [(key, ?s)]"
    using fresh by (rule dict_set_fresh)
  have "distinct (map fst (props @ [(key, ?s)]) @ map fst items)"
    using Cons.prems kv by auto
  from Cons.IH [OF this] show ?case
    unfolding kv gen_properties_step step by simp
qed

text \<open>
  C1. The claim: a boolean is classified as \<^verbatim>\<open>boolean\<close>, the boolean check coming
  before the integer check. The code checks \<^verbatim>\<open>isinstance(val, int)\<close> first, which
  holds of \<^verbatim>\<open>True\<close> and \<^verbatim>\<open>False\<close>, so the branch for \<^verbatim>\<open>bool\<close> is never reached:
  for both booleans, with and without examples, the type is \<^verbatim>\<open>integer\<close>.
\<close>

theorem bool_is_integer:
  "gen_schema True (PBool b) =
     (PDict [(KStr ''type'', PStr ''integer''), (KStr ''example'', PBool b)], [])
   \<and> gen_schema False (PBool b) = (PDict [(KStr ''type'', PStr ''integer'')], [])"
  by (simp add: get_type_ex_def)

text \<open>
  C2. For \<^verbatim>\<open>None\<close>, a string, an integer and a float, the schema is the type of the
  fixed map and, with examples, the value itself as the example (the empty string for
  \<^verbatim>\<open>None\<close>); nothing else is in the schema and nothing is printed.
\<close>

theorem scalar_schema:
  "gen_schema True PNone =
     (PDict [(KStr ''type'', PStr ''string''), (KStr ''example'', PStr [])], [])
   \<and> gen_schema False PNone = (PDict [(KStr ''type'', PStr ''string'')], [])
   \<and> gen_schema True (PStr s) =
     (PDict [(KStr ''type'', PStr ''string''), (KStr ''example'', PStr s)], [])
   \<and> gen_schema False (PStr s) = (PDict [(KStr ''type'', PStr ''string'')], [])
   \<and> gen_schema True (PInt i) =
     (PDict [(KStr ''type'', PStr ''integer''), (KStr ''example'', PInt i)], [])
   \<and> gen_schema False (PInt i) = (PDict [(KStr ''type'', PStr ''integer'')], [])
   \<and> gen_schema True (PFloat w) =
     (PDict [(KStr ''type'', PStr ''number''), (KStr ''example'', PFloat w)], [])
   \<and> gen_schema False (PFloat w) = (PDict [(KStr ''type'', PStr ''number'')], [])"
  by (simp add: get_type_ex_def)

text \<open>
  C3. The schema of the empty list has the empty dictionary as \<^verbatim>\<open>items\<close>; the schema
  of a list with a first element has the schema of that element as \<^verbatim>\<open>items\<close>, and is
  the same whatever follows the first element.
\<close>

theorem array_schema:
  "gen_schema ex (PList []) =
     (PDict [(KStr ''type'', PStr ''array''), (KStr ''items'', PDict [])], [])
   \<and> fst (gen_schema ex (PList (x # xs))) =
       PDict [(KStr ''type'', PStr ''array''), (KStr ''items'', fst (gen_schema ex x))]
   \<and> gen_schema ex (PList (x # xs)) = gen_schema ex (PList (x # ys))"
  by (simp add: case_prod_unfold)

text \<open>
  C4. The schema of a dictionary (its keys are distinct) has the type \<^verbatim>\<open>object\<close> and,
  as \<^verbatim>\<open>properties\<close>, the keys of the dictionary in their order, each with the schema
  of its value.
\<close>

theorem object_schema:
  assumes "distinct (map fst items)"
  shows "fst (gen_schema ex (PDict items)) =
     PDict [(KStr ''type'', PStr ''object''),
            (KStr ''properties'',
             PDict (map (\<lambda>(k, v). (k, fst (gen_schema ex v))) items))]"
  using gen_properties_distinct [of "[]" items ex] assms
  by (simp add: case_prod_unfold)

theorem object_schema_witness:
  "distinct (map fst [(KStr ''name'', PStr ''Ann''), (KStr ''id'', PInt 7)])
   \<and> fst (gen_schema False (PDict [(KStr ''name'', PStr ''Ann''), (KStr ''id'', PInt 7)])) =
     PDict [(KStr ''type'', PStr ''object''),
            (KStr ''properties'',
             PDict [(KStr ''name'', PDict [(KStr ''type'', PStr ''string'')]),
                    (KStr ''id'', PDict [(KStr ''type'', PStr ''integer'')])])]"
  using object_schema [of "[(KStr ''name'', PStr ''Ann''), (KStr ''id'', PInt 7)]" False]
  by (simp add: get_type_ex_def)

section \<open>Properties of the document assembler\<close>

lemma skeleton_document:
  "skeleton a = document a [(KStr ''requestBody'', PNone),
     (KStr ''responses'', PDict [(KInt (resp_code a), PDict [(KStr ''description'', PStr [])])])]"
  by (simp add: skeleton_def document_def)

lemma document_inject: "document a op = document a op' \<longleftrightarrow> op = op'"
  by (simp add: document_def)

lemma setitem_operation:
  "setitem_at (document a op) (operation_path a) k v = Inr (document a (dict_set op k v))"
  by (simp add: document_def operation_path_def)

lemma delitem_operation:
  "k \<in> fst ` set op \<Longrightarrow>
   delitem_at (document a op) (operation_path a) k = Inr (document a (dict_del op k))"
  by (simp add: document_def operation_path_def)

lemma getitem_operation:
  "getitem_at (document a op) (operation_path a @ ks) = getitem_at (PDict op) ks"
  by (simp add: document_def operation_path_def)

lemma setitem_response:
  assumes "map_of op (KStr ''responses'') = Some (PDict rs)"
    and "map_of rs (KInt c) = Some (PDict r)"
  shows "setitem_at (document a op) (operation_path a @ [KStr ''responses'', KInt c]) k v =
     Inr (document a (dict_set op (KStr ''responses'')
            (PDict (dict_set rs (KInt c) (PDict (dict_set r k v))))))"
  using assms by (simp add: document_def operation_path_def)

lemma dumped_append: "dumped (ps @ qs) = dumped ps @ dumped qs"
  by (induction ps rule: dumped.induct) simp_all

lemma dumped_get_type_ex: "dumped (snd (get_type_ex ex v)) = []"
  by (simp add: get_type_ex_def)

lemma dumped_gen:
  "dumped (snd (gen_schema ex v)) = []"
  "dumped (snd (gen_properties ex items props)) = []"
  by (induction ex v and ex items props rule: gen_schema_gen_properties.induct)
     (simp_all add: dumped_get_type_ex case_prod_unfold dumped_append, metis prod.collapse)

lemma load_file_loadable:
  "loadable E f \<Longrightarrow> \<exists>v. load_file E f = Inr v"
  by (auto simp: load_file_def loadable_def quiet_def split: option.splits decoded.splits)


lemma map_of_dict_set: "map_of (dict_set d k v) = (map_of d)(k \<mapsto> v)"
  by (induction d) auto

lemma request_part_skeleton:
  assumes "given (request a) \<longrightarrow> loadable E (the (request a))"
  shows "\<exists>op out. request_part E a (skeleton a) = Inr (document a op, out)
           \<and> dumped out = []
           \<and> map_of op (KStr ''responses'') =
               Some (PDict [(KInt (resp_code a), PDict [(KStr ''description'', PStr [])])])"
proof (cases "given (request a)")
  case False
  then show ?thesis
    by (simp add: request_part_def skeleton_document delitem_operation document_inject)
next
  case True
  with assms obtain v where v: "load_file E (the (request a)) = Inr v"
    using load_file_loadable by fastforce
  show ?thesis
  proof (cases "truthy v")
    case False
    with True v show ?thesis
      by (simp add: request_part_def skeleton_document document_inject)
  next
    case t: True
    with True v show ?thesis
      by (simp add: request_part_def skeleton_document setitem_operation
            case_prod_unfold dumped_gen document_inject)
  qed
qed



lemma request_part_dumped:
  "request_part E a oapi = Inr (oapi', out) \<Longrightarrow> dumped out = []"
  by (auto simp: request_part_def case_prod_unfold dumped_gen
           split: if_splits sum.splits)

lemma response_part_dumped:
  "response_part E a oapi = Inr (oapi', out) \<Longrightarrow> dumped out = []"
  by (auto simp: response_part_def case_prod_unfold dumped_gen
           split: if_splits sum.splits)

lemma assemble_dumped:
  assumes "assemble E a = Inr (oapi, out)"
  shows "dumped out = []"
proof -
  from assms obtain o1 out1 out2 where 1: "request_part E a (skeleton a) = Inr (o1, out1)"
    and 2: "response_part E a o1 = Inr (oapi, out2)" and 3: "out = out1 @ out2"
    by (auto simp: assemble_def split: sum.splits)
  from request_part_dumped [OF 1] response_part_dumped [OF 2] 3 show ?thesis
    by (simp add: dumped_append)
qed


lemma response_part_result:
  assumes "response_part E a (document a op) = Inr (oapi, out)"
    and "map_of op (KStr ''responses'') = Some (PDict [(KInt (resp_code a), PDict r)])"
  shows "\<exists>op' r'. oapi = document a op'
           \<and> map_of op' (KStr ''requestBody'') = map_of op (KStr ''requestBody'')
           \<and> map_of op' (KStr ''responses'') =
               Some (PDict [(KInt (resp_code a), PDict r')])"
proof (cases "given (response a)")
  case False
  with assms show ?thesis by (auto simp: response_part_def)
next
  case True
  with assms(1) obtain v where v: "load_file E (the (response a)) = Inr v"
    by (cases "load_file E (the (response a))") (simp_all add: response_part_def)
  show ?thesis
  proof (cases "truthy v")
    case False
    with True v assms show ?thesis by (auto simp: response_part_def)
  next
    case t: True
    have "setitem_at (document a op)
            (operation_path a @ [KStr ''responses'', KInt (resp_code a)])
            (KStr ''content'') c =
          Inr (document a (dict_set op (KStr ''responses'')
            (PDict (dict_set [(KInt (resp_code a), PDict r)] (KInt (resp_code a))
               (PDict (dict_set r (KStr ''content'') c))))))" for c
      using assms(2) by (intro setitem_response) simp_all
    with True v t assms(1) show ?thesis
      by (auto simp: response_part_def case_prod_unfold map_of_dict_set)
  qed
qed

lemma load_file_returns: "load_file E f = Inr v \<Longrightarrow> loadable E f"
  by (auto simp: load_file_def loadable_def quiet_def split: option.splits decoded.splits)

text \<open>
  In every document the run builds, the one key of \<^verbatim>\<open>responses\<close> is the integer
  \<^verbatim>\<open>args.resp_code\<close> itself: the code never turns it into a string.
\<close>

lemma responses_key:
  assumes "assemble E a = Inr (oapi, out)"
  shows "\<exists>r. getitem_at oapi (operation_path a @ [KStr ''responses'']) =
               Inr (PDict [(KInt (resp_code a), PDict r)])"
proof -
  from assms obtain o1 out1 out2 where 1: "request_part E a (skeleton a) = Inr (o1, out1)"
    and 2: "response_part E a o1 = Inr (oapi, out2)"
    by (auto simp: assemble_def split: sum.splits)
  have "given (request a) \<longrightarrow> loadable E (the (request a))"
    using 1 by (auto simp: request_part_def dest: load_file_returns split: sum.splits)
  from request_part_skeleton [OF this] 1 obtain op where o1: "o1 = document a op"
    and op: "map_of op (KStr ''responses'') =
               Some (PDict [(KInt (resp_code a), PDict [(KStr ''description'', PStr [])])])"
    by auto
  from response_part_result [OF 2 [unfolded o1] op] show ?thesis
    by (auto simp: getitem_operation)
qed

text \<open>
  C5. With no request file and no response file, for every method, path and code, the
  document that reaches the validator is the skeleton without the \<^verbatim>\<open>requestBody\<close>
  key: the operation object has the one key \<^verbatim>\<open>responses\<close>, whose one entry, under the
  code, is the dictionary with the empty \<^verbatim>\<open>description\<close> alone. Nothing is printed.
\<close>

theorem no_payload_document:
  assumes "\<not> given (request a)" and "\<not> given (response a)"
  shows "assemble E a =
     Inr (PDict [
            (KStr ''openapi'', PStr ''3.0.0''),
            (KStr ''info'', PDict [
               (KStr ''title'', PStr ''Generated by json2openapi''),
               (KStr ''version'', PStr ''v1'')]),
            (KStr ''paths'', PDict [
               (KStr (path a), PDict [
                  (KStr (lower (method_str (meth a))), PDict [
                     (KStr ''responses'', PDict [
                        (KInt (resp_code a), PDict [
                           (KStr ''description'', PStr [])])])])])])], [])"
  using assms
  by (simp add: assemble_def request_part_def response_part_def skeleton_def
        operation_path_def)

theorem no_payload_document_witness:
  "\<not> given (request sample_args) \<and> \<not> given (response sample_args)
   \<and> assemble sample_env sample_args =
     Inr (PDict [
            (KStr ''openapi'', PStr ''3.0.0''),
            (KStr ''info'', PDict [
               (KStr ''title'', PStr ''Generated by json2openapi''),
               (KStr ''version'', PStr ''v1'')]),
            (KStr ''paths'', PDict [
               (KStr ''/employees'', PDict [
                  (KStr ''get'', PDict [
                     (KStr ''responses'', PDict [
                        (KInt 200, PDict [
                           (KStr ''description'', PStr [])])])])])])], [])"
  using no_payload_document [of sample_args sample_env]
  by (simp add: sample_args_def lower_def lower_char_def)

text \<open>
  C6. The claim: when a payload decodes neither as JSON nor as YAML, a warning is
  printed, the \<^verbatim>\<open>requestBody\<close> (or the response's \<^verbatim>\<open>content\<close>) is absent from the
  document and the rest is built. For the request the code prints the warning and goes
  on, but the placeholder \<^verbatim>\<open>"requestBody": None\<close> of the dictionary literal is deleted
  only when no request file is given: after a failed decode every document the run
  builds still has the key \<^verbatim>\<open>requestBody\<close>, with the value \<^verbatim>\<open>None\<close>.
\<close>

theorem undecodable_request_keeps_placeholder:
  assumes "request a = Some f" and "f \<noteq> []" and "files E f = Some t"
    and "json_load E t = Decode_error" and "yaml_safe_load E t = Decode_error"
    and "assemble E a = Inr (oapi, out)"
  shows "getitem_at oapi (operation_path a @ [KStr ''requestBody'']) = Inr PNone
         \<and> hd out = Skip_request f"
proof -
  let ?op = "[(KStr ''requestBody'', PNone),
     (KStr ''responses'', PDict [(KInt (resp_code a), PDict [(KStr ''description'', PStr [])])])]"
  have rq: "request_part E a (skeleton a) = Inr (document a ?op, [Skip_request f])"
    using assms(1-5) by (simp add: request_part_def load_file_def skeleton_document)
  with assms(6) obtain out' where rs: "response_part E a (document a ?op) = Inr (oapi, out')"
    and out: "out = Skip_request f # out'"
    by (auto simp: assemble_def split: sum.splits)
  from response_part_result [OF rs] obtain op' where "oapi = document a op'"
    and "map_of op' (KStr ''requestBody'') = Some PNone"
    by auto
  with out show ?thesis by (simp add: getitem_operation)
qed

theorem undecodable_request_keeps_placeholder_witness:
  "main sample_env (sample_args\<lparr>request := Some ''broken.txt''\<rparr>) =
     Inr \<lparr>stdout = [Skip_request ''broken.txt'', Looks_valid, Separator,
            Dumped (PDict [
              (KStr ''openapi'', PStr ''3.0.0''),
              (KStr ''info'', PDict [
                 (KStr ''title'', PStr ''Generated by json2openapi''),
                 (KStr ''version'', PStr ''v1'')]),
              (KStr ''paths'', PDict [
                 (KStr ''/employees'', PDict [
                    (KStr ''get'', PDict [
                       (KStr ''requestBody'', PNone),
                       (KStr ''responses'', PDict [
                          (KInt 200, PDict [
                             (KStr ''description'', PStr [])])])])])])])],
          written = None\<rparr>
   \<and> getitem_at (skeleton sample_args)
         (operation_path (sample_args\<lparr>request := Some ''broken.txt''\<rparr>) @ [KStr ''requestBody'']) =
       Inr PNone"
  using undecodable_request_keeps_placeholder
    [of "sample_args\<lparr>request := Some ''broken.txt''\<rparr>" "''broken.txt''" sample_env "''{''"
        "skeleton sample_args" "[Skip_request ''broken.txt'']"]
  by (simp add: main_def assemble_def request_part_def response_part_def load_file_def
        skeleton_def operation_path_def sample_env_def sample_args_def lower_def lower_char_def)


lemma main_emitted:
  "map_sum id emitted (main E a) =
     (case map_sum id fst (assemble E a) of
        Inl e \<Rightarrow> Inl e
      | Inr oapi \<Rightarrow>
          (case validate E oapi of
             Some message \<Rightarrow> Inr []
           | None \<Rightarrow>
               (if given (output_file a) \<and> \<not> writable E (the (output_file a))
                then Inl (OSError (the (output_file a)))
                else Inr [oapi])))"
proof (cases "assemble E a")
  case (Inl e)
  then show ?thesis by (simp add: main_def)
next
  case (Inr p)
  obtain oapi out where p: "p = (oapi, out)" by (cases p)
  from Inr p have "dumped out = []" by (simp add: assemble_dumped)
  with Inr p show ?thesis
    by (simp add: main_def emitted_def dumped_append split: option.splits)
qed

text \<open>
  An exception of a decoder other than its decode error is no decode failure that
  \<^verbatim>\<open>_load_file\<close> handles: it leaves \<^verbatim>\<open>main\<close> before any warning and any validation.
\<close>

lemma decoder_exception_leaves_main:
  assumes "request a = Some f" and "f \<noteq> []" and "files E f = Some t"
    and "json_load E t = Raised e \<or>
         (json_load E t = Decode_error \<and> yaml_safe_load E t = Raised e)"
  shows "main E a = Inl (Uncaught e)"
  using assms by (auto simp: main_def assemble_def request_part_def load_file_def)

lemma deep_nesting_leaves_main:
  "main sample_env (sample_args\<lparr>request := Some ''deep.json''\<rparr>) =
     Inl (Uncaught ''RecursionError'')"
  by (rule decoder_exception_leaves_main [where f = "''deep.json''" and t = "''[[[[''"])
     (simp_all add: sample_env_def sample_args_def)




lemma assemble_document:
  "map_sum id fst (assemble E a) =
     (case request_part E a (skeleton a) of
        Inl e \<Rightarrow> Inl e
      | Inr p \<Rightarrow> map_sum id fst (response_part E a (fst p)))"
  by (simp add: assemble_def split: sum.splits prod.splits)

lemma request_part_same:
  assumes "load_file E f1 = load_file E f2" and "f1 \<noteq> []" and "f2 \<noteq> []"
  shows "map_sum id fst (request_part E (a\<lparr>request := Some f1\<rparr>) oapi) =
         map_sum id fst (request_part E (a\<lparr>request := Some f2\<rparr>) oapi)"
  using assms
  by (simp add: request_part_def operation_path_def content_def case_prod_unfold
        split: sum.splits)

lemma response_part_same:
  assumes "load_file E f1 = load_file E f2" and "f1 \<noteq> []" and "f2 \<noteq> []"
  shows "map_sum id fst (response_part E (a\<lparr>response := Some f1\<rparr>) oapi) =
         map_sum id fst (response_part E (a\<lparr>response := Some f2\<rparr>) oapi)"
  using assms
  by (simp add: response_part_def operation_path_def content_def case_prod_unfold
        split: sum.splits)

lemma request_part_response:
  "request_part E (a\<lparr>response := r\<rparr>) oapi = request_part E a oapi"
  by (simp add: request_part_def operation_path_def content_def
        cong: sum.case_cong if_cong prod.case_cong)

lemma response_part_request:
  "response_part E (a\<lparr>request := r\<rparr>) oapi = response_part E a oapi"
  by (simp add: response_part_def operation_path_def content_def
        cong: sum.case_cong if_cong prod.case_cong)

lemma skeleton_payload:
  "skeleton (a\<lparr>request := r\<rparr>) = skeleton a" "skeleton (a\<lparr>response := r\<rparr>) = skeleton a"
  by (simp_all add: skeleton_def)

lemma assemble_same_response:
  assumes "load_file E f1 = load_file E f2" and "f1 \<noteq> []" and "f2 \<noteq> []"
  shows "map_sum id fst (assemble E (a\<lparr>response := Some f1\<rparr>)) =
         map_sum id fst (assemble E (a\<lparr>response := Some f2\<rparr>))"
  by (simp add: assemble_document request_part_response skeleton_payload
        response_part_same [OF assms] split: sum.splits)

lemma assemble_same_request:
  assumes "load_file E f1 = load_file E f2" and "f1 \<noteq> []" and "f2 \<noteq> []"
  shows "map_sum id fst (assemble E (a\<lparr>request := Some f1\<rparr>)) =
         map_sum id fst (assemble E (a\<lparr>request := Some f2\<rparr>))"
proof -
  let ?r1 = "request_part E (a\<lparr>request := Some f1\<rparr>) (skeleton a)"
  let ?r2 = "request_part E (a\<lparr>request := Some f2\<rparr>) (skeleton a)"
  have same: "map_sum id fst ?r1 = map_sum id fst ?r2"
    by (rule request_part_same [OF assms])
  show ?thesis
  proof (cases ?r1)
    case (Inl e)
    with same have "?r2 = Inl e" by (cases ?r2) simp_all
    with Inl show ?thesis by (simp add: assemble_document skeleton_payload)
  next
    case (Inr p)
    with same obtain q where q: "?r2 = Inr q" and "fst q = fst p"
      by (cases ?r2) simp_all
    with Inr show ?thesis
      by (simp add: assemble_document skeleton_payload response_part_request)
  qed
qed

text \<open>
  C8. Two files, the first decoded by the JSON decoder, the second rejected by the JSON
  decoder and decoded by the YAML decoder to the same value: \<^verbatim>\<open>_load_file\<close> returns that
  value for both, and the run builds the same document and hands out the same
  documents, whether the one or the other is the response file, or the request file.
\<close>

theorem json_yaml_same_document:
  assumes "f1 \<noteq> []" and "f2 \<noteq> []"
    and "files E f1 = Some t1" and "files E f2 = Some t2"
    and "json_load E t1 = Decoded v"
    and "json_load E t2 = Decode_error" and "yaml_safe_load E t2 = Decoded v"
  shows "load_file E f1 = Inr v \<and> load_file E f2 = Inr v
    \<and> map_sum id fst (assemble E (a\<lparr>response := Some f1\<rparr>)) =
       map_sum id fst (assemble E (a\<lparr>response := Some f2\<rparr>))
    \<and> map_sum id fst (assemble E (a\<lparr>request := Some f1\<rparr>)) =
       map_sum id fst (assemble E (a\<lparr>request := Some f2\<rparr>))
    \<and> map_sum id emitted (main E (a\<lparr>response := Some f1\<rparr>)) =
       map_sum id emitted (main E (a\<lparr>response := Some f2\<rparr>))
    \<and> map_sum id emitted (main E (a\<lparr>request := Some f1\<rparr>)) =
       map_sum id emitted (main E (a\<lparr>request := Some f2\<rparr>))"
proof -
  have 1: "load_file E f1 = Inr v" and 2: "load_file E f2 = Inr v"
    using assms by (simp_all add: load_file_def)
  then have same: "load_file E f1 = load_file E f2" by simp
  note rs = assemble_same_response [OF same assms(1,2), of a]
  note rq = assemble_same_request [OF same assms(1,2), of a]
  have "map_sum id emitted (main E (a\<lparr>response := Some f1\<rparr>)) =
        map_sum id emitted (main E (a\<lparr>response := Some f2\<rparr>))"
    by (simp add: main_emitted rs cong: sum.case_cong option.case_cong if_cong)
  moreover have "map_sum id emitted (main E (a\<lparr>request := Some f1\<rparr>)) =
        map_sum id emitted (main E (a\<lparr>request := Some f2\<rparr>))"
    by (simp add: main_emitted rq cong: sum.case_cong option.case_cong if_cong)
  ultimately show ?thesis using 1 2 rs rq by simp
qed

theorem json_yaml_same_document_witness:
  "load_file sample_env ''employee.json'' = Inr employee
   \<and> load_file sample_env ''employee.yaml'' = Inr employee
   \<and> map_sum id emitted (main sample_env (sample_args\<lparr>response := Some ''employee.json''\<rparr>)) =
     map_sum id emitted (main sample_env (sample_args\<lparr>response := Some ''employee.yaml''\<rparr>))"
  using json_yaml_same_document
      [of "''employee.json''" "''employee.yaml''" sample_env "''{json}''" "''yaml:''"
          employee sample_args]
  by (simp add: sample_env_def)


lemma load_file_undecodable:
  "load_file (undecodable E t) g =
     (if files E g = Some t then Inr PNone else load_file E g)"
  by (simp add: load_file_def undecodable_def split: option.splits decoded.splits)

lemma request_part_falsy:
  assumes "given (request a)" and "load_file E (the (request a)) = Inr v"
    and "\<not> truthy v"
  shows "request_part E a oapi = Inr (oapi, [Skip_request (the (request a))])"
  using assms by (simp add: request_part_def)

lemma response_part_falsy:
  assumes "given (response a)" and "load_file E (the (response a)) = Inr v"
    and "\<not> truthy v"
  shows "response_part E a oapi = Inr (oapi, [Skip_response (the (response a))])"
  using assms by (simp add: response_part_def)

lemma request_part_undecodable:
  assumes "\<And>g. files E g = Some t \<Longrightarrow> load_file E g = Inr v" and "\<not> truthy v"
  shows "request_part (undecodable E t) a oapi = request_part E a oapi"
proof (cases "given (request a) \<and> files E (the (request a)) = Some t")
  case True
  then have "load_file E (the (request a)) = Inr v"
    and "load_file (undecodable E t) (the (request a)) = Inr PNone"
    using assms(1) by (simp_all add: load_file_undecodable)
  with True assms(2) show ?thesis
    by (simp add: request_part_falsy [where v = v] request_part_falsy [where v = PNone])
next
  case False
  then show ?thesis
    by (auto simp: request_part_def load_file_undecodable)
qed

lemma response_part_undecodable:
  assumes "\<And>g. files E g = Some t \<Longrightarrow> load_file E g = Inr v" and "\<not> truthy v"
  shows "response_part (undecodable E t) a oapi = response_part E a oapi"
proof (cases "given (response a) \<and> files E (the (response a)) = Some t")
  case True
  then have "load_file E (the (response a)) = Inr v"
    and "load_file (undecodable E t) (the (response a)) = Inr PNone"
    using assms(1) by (simp_all add: load_file_undecodable)
  with True assms(2) show ?thesis
    by (simp add: response_part_falsy [where v = v] response_part_falsy [where v = PNone])
next
  case False
  then show ?thesis
    by (auto simp: response_part_def load_file_undecodable)
qed

text \<open>
  C10. A file whose text decodes (as JSON, or as YAML after the JSON decoder failed) to
  a value that is false in Python is handled as a file that cannot be decoded: as the
  request or the response file it leaves the document as it was and prints the
  warning, and every run is the same as in the world where both decoders fail on that
  text. The empty dictionary, the empty list, \<open>0\<close>, \<^verbatim>\<open>False\<close>, \<^verbatim>\<open>None\<close> and the empty
  string are such values.
\<close>

theorem falsy_payload_like_failure:
  assumes "json_load E t = Decoded v
      \<or> (json_load E t = Decode_error \<and> yaml_safe_load E t = Decoded v)"
    and "\<not> truthy v"
    and "f \<noteq> []" and "files E f = Some t"
  shows "request_part E (a\<lparr>request := Some f\<rparr>) oapi = Inr (oapi, [Skip_request f])
    \<and> response_part E (a\<lparr>response := Some f\<rparr>) oapi = Inr (oapi, [Skip_response f])
    \<and> request_part (undecodable E t) (a\<lparr>request := Some f\<rparr>) oapi =
        Inr (oapi, [Skip_request f])
    \<and> response_part (undecodable E t) (a\<lparr>response := Some f\<rparr>) oapi =
        Inr (oapi, [Skip_response f])
    \<and> main (undecodable E t) a = main E a
    \<and> \<not> truthy (PDict []) \<and> \<not> truthy (PList []) \<and> \<not> truthy (PInt 0)
    \<and> \<not> truthy (PBool False) \<and> \<not> truthy PNone \<and> \<not> truthy (PStr [])"
proof -
  have load: "load_file E g = Inr v" if "files E g = Some t" for g
    using that assms(1) by (auto simp: load_file_def)
  have rq: "request_part (undecodable E t) b d = request_part E b d" for b d
    by (rule request_part_undecodable [OF load assms(2)])
  have rs: "response_part (undecodable E t) b d = response_part E b d" for b d
    by (rule response_part_undecodable [OF load assms(2)])
  have 1: "request_part E (a\<lparr>request := Some f\<rparr>) oapi = Inr (oapi, [Skip_request f])"
    using request_part_falsy [of "a\<lparr>request := Some f\<rparr>" E v oapi] load assms(2-4)
    by simp
  have 2: "response_part E (a\<lparr>response := Some f\<rparr>) oapi = Inr (oapi, [Skip_response f])"
    using response_part_falsy [of "a\<lparr>response := Some f\<rparr>" E v oapi] load assms(2-4)
    by simp
  have "assemble (undecodable E t) a = assemble E a"
    by (simp add: assemble_def rq rs cong: sum.case_cong prod.case_cong)
  moreover have "validate (undecodable E t) = validate E"
    and "writable (undecodable E t) = writable E"
    by (simp_all add: undecodable_def)
  ultimately have 3: "main (undecodable E t) a = main E a"
    by (simp add: main_def cong: sum.case_cong prod.case_cong option.case_cong if_cong)
  from 1 2 3 show ?thesis by (simp add: rq rs)
qed

theorem falsy_payload_like_failure_witness:
  "request_part sample_env (sample_args\<lparr>request := Some ''empty.json''\<rparr>) (skeleton sample_args) =
     Inr (skeleton sample_args, [Skip_request ''empty.json''])
   \<and> main (undecodable sample_env ''{}'') (sample_args\<lparr>request := Some ''empty.json''\<rparr>) =
     main sample_env (sample_args\<lparr>request := Some ''empty.json''\<rparr>)"
  using falsy_payload_like_failure
      [of sample_env "''{}''" "PDict []" "''empty.json''" sample_args "skeleton sample_args"]
    falsy_payload_like_failure
      [of sample_env "''{}''" "PDict []" "''empty.json''"
          "sample_args\<lparr>request := Some ''empty.json''\<rparr>" "skeleton sample_args"]
  by (simp add: sample_env_def)

end
